theory Spec2Isabelle
  imports Complex_Main
begin

section \<open>Data model\<close>

text \<open>
  The backend of the furniture catalogue: the in-memory \<open>ProductStore\<close>
  (instances/product/productStore.ts), the validation schemas
  (services/product/productValidation.ts) and the five service functions
  (services/product/productService.ts).

  Conventions of the embedding.
  \<^item> A JavaScript string is a \<open>string\<close>, one \<open>char\<close> for each UTF-16 code unit, so that
    \<open>length\<close> is the \<open>.length\<close> the schemas bound; the two accented letters of the
    category names are the code units 0xF3 and 0xE1.
  \<^item> A number that arrives in a JSON body is a \<open>rat\<close> (JSON has neither NaN nor an
    infinity); a number obtained by \<open>Number(v)\<close> from a query string or a route parameter
    is a \<open>number\<close>, which has both.
  \<^item> Identifiers, the identifier counter and lengths are natural numbers; timestamps are
    integers, the milliseconds \<open>Date.getTime()\<close> returns (the stored ISO-8601 string and the
    milliseconds determine each other).
  \<^item> JavaScript numbers are doubles. The counter, the lengths, the page numbers and the
    timestamps are integers far below \<open>2^53\<close> in any run that can happen, where double
    arithmetic on them is exact; they are unbounded integers here. Prices are only
    compared, and the sign of \<open>a - b\<close> on finite doubles is the sign of the exact
    difference.
  \<^item> The clock is an argument \<open>now\<close> of the operations that read it.
  \<^item> A thrown \<open>ServiceError\<close> or \<open>Error\<close> is an \<open>Inl\<close> result; the store is passed in and
    returned.
\<close>

record product =
  pid :: nat
  name :: string
  description :: "string option"
  mainImage :: string
  images :: "string list"
  price :: "rat option"
  category :: string
  shortDescription :: "string option"
  dimensions :: "string option"
  featured :: bool
  isNew :: bool
  onSale :: bool
  available :: bool
  dateCreated :: int
  dateModified :: int

record list_item =
  li_id :: nat
  li_name :: string
  li_mainImage :: string
  li_price :: "rat option"
  li_category :: string
  li_featured :: bool
  li_isNew :: bool
  li_onSale :: bool
  li_available :: bool

record pagination_meta =
  pg_page :: int
  pg_pageSize :: int
  pg_total :: int
  pg_totalPages :: int
  pg_hasNext :: bool
  pg_hasPrevious :: bool

record list_response =
  r_items :: "list_item list"
  r_pagination :: pagination_meta

text \<open>\<open>Partial<ProductRecord>\<close>: every field may be missing.\<close>

record product_patch =
  pt_id :: "nat option"
  pt_name :: "string option"
  pt_description :: "string option option"
  pt_mainImage :: "string option"
  pt_images :: "string list option"
  pt_price :: "rat option option"
  pt_category :: "string option"
  pt_shortDescription :: "string option option"
  pt_dimensions :: "string option option"
  pt_featured :: "bool option"
  pt_isNew :: "bool option"
  pt_onSale :: "bool option"
  pt_available :: "bool option"
  pt_dateCreated :: "int option"
  pt_dateModified :: "int option"

datatype error = VALIDATION_ERROR | NOT_FOUND | LIMIT_REACHED

text \<open>
  A field of an untrusted JSON object: missing, present with a value of the wrong JSON
  type, or present with a value of the expected type.
\<close>

datatype 'a field = Absent | Invalid | Present 'a

text \<open>The result of \<open>Number(v)\<close>.\<close>

datatype number = NaN | Infinity | Finite rat

section \<open>Constants (constants/product/productDefaults.ts)\<close>

definition DEFAULT_AVAILABLE :: bool where "DEFAULT_AVAILABLE = True"
definition DEFAULT_FEATURED :: bool where "DEFAULT_FEATURED = False"
definition DEFAULT_ON_SALE :: bool where "DEFAULT_ON_SALE = False"
definition MAX_RECORDS :: nat where "MAX_RECORDS = 10000"

definition LIVING_ROOM :: string where "LIVING_ROOM = ''sala de estar''"
definition BEDROOM :: string where "BEDROOM = ''quarto''"
definition KITCHEN :: string where "KITCHEN = ''cozinha''"
definition OFFICE :: string where "OFFICE = ''escrit'' @ [CHR 0xF3] @ ''rio''"
definition BATHROOM :: string where "BATHROOM = ''banheiro''"
definition OUTDOOR :: string where "OUTDOOR = CHR 0xE1 # ''rea externa''"

definition PRODUCT_CATEGORIES :: "string list" where
  "PRODUCT_CATEGORIES = [LIVING_ROOM, BEDROOM, KITCHEN, OFFICE, BATHROOM, OUTDOOR]"

definition NAME_MAX_LENGTH :: nat where "NAME_MAX_LENGTH = 60"
definition DESCRIPTION_MAX_LENGTH :: nat where "DESCRIPTION_MAX_LENGTH = 500"
definition SHORT_DESCRIPTION_MAX_LENGTH :: nat where "SHORT_DESCRIPTION_MAX_LENGTH = 150"
definition DIMENSIONS_MAX_LENGTH :: nat where "DIMENSIONS_MAX_LENGTH = 50"

section \<open>The store (instances/product/productStore.ts)\<close>

text \<open>
  \<open>records\<close> is a JavaScript \<open>Map\<close>: it keeps its entries in insertion order, \<open>set\<close> on a
  key that is present replaces the value where it stands, and \<open>values()\<close> lists them in
  that order. It is an association list here; \<open>map_set\<close> and \<open>map_delete\<close> are \<open>Map.set\<close>
  and \<open>Map.delete\<close>.
\<close>

record product_store =
  records :: "(nat \<times> product) list"
  currentId :: nat

fun map_set :: "nat \<Rightarrow> 'v \<Rightarrow> (nat \<times> 'v) list \<Rightarrow> (nat \<times> 'v) list" where
  "map_set k v [] = [(k, v)]"
| "map_set k v ((k', v') # kvs) =
     (if k' = k then (k, v) # kvs else (k', v') # map_set k v kvs)"

definition map_delete :: "nat \<Rightarrow> (nat \<times> 'v) list \<Rightarrow> (nat \<times> 'v) list" where
  "map_delete k kvs = filter (\<lambda>kv. fst kv \<noteq> k) kvs"

definition store_getNextId :: "product_store \<Rightarrow> nat \<times> product_store" where
  "store_getNextId s = (currentId s + 1, s\<lparr>currentId := currentId s + 1\<rparr>)"

definition store_getAll :: "product_store \<Rightarrow> product list \<times> product_store" where
  "store_getAll s = (map snd (records s), s)"

definition store_getById :: "nat \<Rightarrow> product_store \<Rightarrow> product option \<times> product_store" where
  "store_getById i s = (map_of (records s) i, s)"

definition store_add :: "product \<Rightarrow> product_store \<Rightarrow> (error + product) \<times> product_store" where
  "store_add record s =
     (if length (records s) \<ge> MAX_RECORDS then (Inl LIMIT_REACHED, s)
      else (Inr record, s\<lparr>records := map_set (pid record) record (records s)\<rparr>))"

text \<open>\<open>{ ...existing, ...data }\<close>: a field of \<open>data\<close> that is set wins.\<close>

definition spread :: "product \<Rightarrow> product_patch \<Rightarrow> product" where
  "spread existing data =
     \<lparr>pid = (case pt_id data of None \<Rightarrow> pid existing | Some v \<Rightarrow> v),
      name = (case pt_name data of None \<Rightarrow> name existing | Some v \<Rightarrow> v),
      description = (case pt_description data of None \<Rightarrow> description existing | Some v \<Rightarrow> v),
      mainImage = (case pt_mainImage data of None \<Rightarrow> mainImage existing | Some v \<Rightarrow> v),
      images = (case pt_images data of None \<Rightarrow> images existing | Some v \<Rightarrow> v),
      price = (case pt_price data of None \<Rightarrow> price existing | Some v \<Rightarrow> v),
      category = (case pt_category data of None \<Rightarrow> category existing | Some v \<Rightarrow> v),
      shortDescription =
        (case pt_shortDescription data of None \<Rightarrow> shortDescription existing | Some v \<Rightarrow> v),
      dimensions = (case pt_dimensions data of None \<Rightarrow> dimensions existing | Some v \<Rightarrow> v),
      featured = (case pt_featured data of None \<Rightarrow> featured existing | Some v \<Rightarrow> v),
      isNew = (case pt_isNew data of None \<Rightarrow> isNew existing | Some v \<Rightarrow> v),
      onSale = (case pt_onSale data of None \<Rightarrow> onSale existing | Some v \<Rightarrow> v),
      available = (case pt_available data of None \<Rightarrow> available existing | Some v \<Rightarrow> v),
      dateCreated = (case pt_dateCreated data of None \<Rightarrow> dateCreated existing | Some v \<Rightarrow> v),
      dateModified =
        (case pt_dateModified data of None \<Rightarrow> dateModified existing | Some v \<Rightarrow> v)\<rparr>"

definition store_update ::
  "nat \<Rightarrow> product_patch \<Rightarrow> product_store \<Rightarrow> product option \<times> product_store" where
  "store_update i data s =
     (case map_of (records s) i of
        None \<Rightarrow> (None, s)
      | Some existing \<Rightarrow>
          (let updated = spread existing data
           in (Some updated, s\<lparr>records := map_set i updated (records s)\<rparr>)))"

definition store_delete :: "nat \<Rightarrow> product_store \<Rightarrow> bool \<times> product_store" where
  "store_delete i s =
     (map_of (records s) i \<noteq> None, s\<lparr>records := map_delete i (records s)\<rparr>)"

definition store_exists :: "nat \<Rightarrow> product_store \<Rightarrow> bool \<times> product_store" where
  "store_exists i s = (map_of (records s) i \<noteq> None, s)"

definition store_count :: "product_store \<Rightarrow> nat \<times> product_store" where
  "store_count s = (length (records s), s)"

definition store_clear :: "product_store \<Rightarrow> product_store" where
  "store_clear s = s\<lparr>records := [], currentId := 0\<rparr>"

section \<open>Validation (services/product/productValidation.ts)\<close>

text \<open>
  The schemas are \<open>zod\<close> objects; what is modelled is their effect: which inputs they
  accept and the value they hand to the service. \<open>z.string().url()\<close> is a check of the
  library (it asks the platform's URL parser), taken as the parameter \<open>isUrl\<close>.
  A \<open>ServiceError\<close> carries the list of per-field issues; only its code is kept.
\<close>

record body =
  b_name :: "string field"
  b_description :: "string option field"
  b_mainImage :: "string field"
  b_images :: "string list field"
  b_price :: "rat option field"
  b_category :: "string field"
  b_shortDescription :: "string option field"
  b_dimensions :: "string option field"
  b_featured :: "bool field"
  b_onSale :: "bool field"
  b_available :: "bool field"

text \<open>
  The parsed value of \<open>createSchema\<close> and of \<open>updateSchema\<close>. The service still guards
  \<open>images\<close>, \<open>featured\<close>, \<open>onSale\<close> and \<open>available\<close> against \<open>undefined\<close>
  (\<open>images?\<close>, \<open>featured?\<close> in \<open>ProductCreateRequest\<close> and \<open>ProductUpdateRequest\<close>), so these
  are options; the schemas always fill them.
\<close>

record create_input =
  ci_name :: string
  ci_description :: "string option"
  ci_mainImage :: string
  ci_images :: "string list option"
  ci_price :: "rat option"
  ci_category :: string
  ci_shortDescription :: "string option"
  ci_dimensions :: "string option"
  ci_featured :: "bool option"
  ci_onSale :: "bool option"
  ci_available :: "bool option"

record update_input =
  ui_name :: string
  ui_description :: "string option"
  ui_mainImage :: string
  ui_images :: "string list option"
  ui_price :: "rat option"
  ui_category :: string
  ui_shortDescription :: "string option"
  ui_dimensions :: "string option"
  ui_featured :: bool
  ui_onSale :: bool
  ui_available :: bool

text \<open>\<open>.optional().default(d)\<close>: a missing field parses to \<open>d\<close>.\<close>

fun with_default :: "'a \<Rightarrow> 'a field \<Rightarrow> 'a" where
  "with_default d (Present v) = v"
| "with_default d _ = d"

fun required :: "'a field \<Rightarrow> 'a" where
  "required (Present v) = v"
| "required _ = undefined"

text \<open>\<open>z.string().min(1).max(NAME_MAX_LENGTH)\<close>\<close>

fun valid_name :: "string field \<Rightarrow> bool" where
  "valid_name (Present s) = (1 \<le> length s \<and> length s \<le> NAME_MAX_LENGTH)"
| "valid_name _ = False"

text \<open>\<open>z.string().max(n).nullable()\<close>\<close>

fun valid_nullable_text :: "nat \<Rightarrow> string option field \<Rightarrow> bool" where
  "valid_nullable_text n (Present None) = True"
| "valid_nullable_text n (Present (Some s)) = (length s \<le> n)"
| "valid_nullable_text n _ = False"

text \<open>\<open>z.string().url()\<close>\<close>

fun valid_url :: "(string \<Rightarrow> bool) \<Rightarrow> string field \<Rightarrow> bool" where
  "valid_url isUrl (Present s) = isUrl s"
| "valid_url isUrl _ = False"

text \<open>\<open>z.array(z.string().url()).optional().default([])\<close>\<close>

fun valid_images :: "(string \<Rightarrow> bool) \<Rightarrow> string list field \<Rightarrow> bool" where
  "valid_images isUrl Absent = True"
| "valid_images isUrl (Present xs) = list_all isUrl xs"
| "valid_images isUrl Invalid = False"

text \<open>\<open>z.number().positive().nullable()\<close>\<close>

fun valid_price :: "rat option field \<Rightarrow> bool" where
  "valid_price (Present None) = True"
| "valid_price (Present (Some p)) = (p > 0)"
| "valid_price _ = False"

text \<open>\<open>z.enum([...the six categories...])\<close>\<close>

fun valid_category :: "string field \<Rightarrow> bool" where
  "valid_category (Present c) = (c \<in> set PRODUCT_CATEGORIES)"
| "valid_category _ = False"

text \<open>\<open>z.boolean().optional().default(d)\<close> and \<open>z.boolean()\<close>\<close>

fun valid_optional_flag :: "bool field \<Rightarrow> bool" where
  "valid_optional_flag Invalid = False"
| "valid_optional_flag _ = True"

fun valid_flag :: "bool field \<Rightarrow> bool" where
  "valid_flag (Present v) = True"
| "valid_flag _ = False"

definition valid_common :: "(string \<Rightarrow> bool) \<Rightarrow> body \<Rightarrow> bool" where
  "valid_common isUrl b \<longleftrightarrow>
     valid_name (b_name b) \<and>
     valid_nullable_text DESCRIPTION_MAX_LENGTH (b_description b) \<and>
     valid_url isUrl (b_mainImage b) \<and>
     valid_images isUrl (b_images b) \<and>
     valid_price (b_price b) \<and>
     valid_category (b_category b) \<and>
     valid_nullable_text SHORT_DESCRIPTION_MAX_LENGTH (b_shortDescription b) \<and>
     valid_nullable_text DIMENSIONS_MAX_LENGTH (b_dimensions b)"

definition createSchema :: "(string \<Rightarrow> bool) \<Rightarrow> body \<Rightarrow> error + create_input" where
  "createSchema isUrl b =
     (if valid_common isUrl b \<and> valid_optional_flag (b_featured b) \<and>
         valid_optional_flag (b_onSale b) \<and> valid_optional_flag (b_available b)
      then Inr \<lparr>ci_name = required (b_name b),
                ci_description = required (b_description b),
                ci_mainImage = required (b_mainImage b),
                ci_images = Some (with_default [] (b_images b)),
                ci_price = required (b_price b),
                ci_category = required (b_category b),
                ci_shortDescription = required (b_shortDescription b),
                ci_dimensions = required (b_dimensions b),
                ci_featured = Some (with_default False (b_featured b)),
                ci_onSale = Some (with_default False (b_onSale b)),
                ci_available = Some (with_default True (b_available b))\<rparr>
      else Inl VALIDATION_ERROR)"

definition updateSchema :: "(string \<Rightarrow> bool) \<Rightarrow> body \<Rightarrow> error + update_input" where
  "updateSchema isUrl b =
     (if valid_common isUrl b \<and> valid_flag (b_featured b) \<and>
         valid_flag (b_onSale b) \<and> valid_flag (b_available b)
      then Inr \<lparr>ui_name = required (b_name b),
                ui_description = required (b_description b),
                ui_mainImage = required (b_mainImage b),
                ui_images = Some (with_default [] (b_images b)),
                ui_price = required (b_price b),
                ui_category = required (b_category b),
                ui_shortDescription = required (b_shortDescription b),
                ui_dimensions = required (b_dimensions b),
                ui_featured = required (b_featured b),
                ui_onSale = required (b_onSale b),
                ui_available = required (b_available b)\<rparr>
      else Inl VALIDATION_ERROR)"

text \<open>
  \<open>z.coerce.number().int().positive()\<close> on the coerced value: \<open>int()\<close> is
  \<open>Number.isInteger\<close>, false of NaN and of the infinities.
\<close>

fun positive_int :: "number \<Rightarrow> int option" where
  "positive_int (Finite r) = (if of_int \<lfloor>r\<rfloor> = r \<and> r > 0 then Some \<lfloor>r\<rfloor> else None)"
| "positive_int _ = None"

text \<open>\<open>paramsSchema\<close>: the route parameter \<open>id\<close>, given as \<open>Number(id)\<close>.\<close>

definition paramsSchema :: "number \<Rightarrow> error + nat" where
  "paramsSchema n = (case positive_int n of None \<Rightarrow> Inl VALIDATION_ERROR | Some i \<Rightarrow> Inr (nat i))"

text \<open>
  The query of the list operation. \<open>page\<close> and \<open>pageSize\<close> are coerced, so a value that is
  present is given as its \<open>Number(v)\<close>; \<open>available\<close> and \<open>featured\<close> must be strings.
\<close>

record raw_query =
  q_category :: "string field"
  q_sort :: "string field"
  q_page :: "number option"
  q_pageSize :: "number option"
  q_available :: "string field"
  q_featured :: "string field"

record list_filters =
  f_category :: "string option"
  f_sort :: "string option"
  f_page :: int
  f_pageSize :: int
  f_available :: "bool option"
  f_featured :: "bool option"

definition SORT_VALUES :: "string list" where
  "SORT_VALUES = [''newest'', ''name-asc'', ''name-desc'', ''price-asc'', ''price-desc'']"

text \<open>\<open>z.enum(values).optional()\<close>\<close>

fun optional_enum :: "string list \<Rightarrow> string field \<Rightarrow> string option option" where
  "optional_enum values Absent = Some None"
| "optional_enum values (Present v) = (if v \<in> set values then Some (Some v) else None)"
| "optional_enum values Invalid = None"

text \<open>\<open>z.coerce.number().int().positive().optional().default(1)\<close>\<close>

fun parse_page :: "number option \<Rightarrow> int option" where
  "parse_page None = Some 1"
| "parse_page (Some n) = positive_int n"

text \<open>
  \<open>z.coerce.number().int().refine((val) => [12, 24, 36, 48].includes(val)).optional().default(12)\<close>
\<close>

fun parse_pageSize :: "number option \<Rightarrow> int option" where
  "parse_pageSize None = Some 12"
| "parse_pageSize (Some (Finite r)) =
     (if of_int \<lfloor>r\<rfloor> = r \<and> \<lfloor>r\<rfloor> \<in> set [12, 24, 36, 48] then Some \<lfloor>r\<rfloor> else None)"
| "parse_pageSize (Some _) = None"

text \<open>\<open>z.string().transform((val) => val === 'true').optional()\<close>\<close>

fun optional_flag :: "string field \<Rightarrow> bool option option" where
  "optional_flag Absent = Some None"
| "optional_flag (Present v) = Some (Some (v = ''true''))"
| "optional_flag Invalid = None"

definition listQuerySchema :: "raw_query \<Rightarrow> error + list_filters" where
  "listQuerySchema q =
     (case optional_enum PRODUCT_CATEGORIES (q_category q) of None \<Rightarrow> Inl VALIDATION_ERROR
      | Some c \<Rightarrow>
     (case optional_enum SORT_VALUES (q_sort q) of None \<Rightarrow> Inl VALIDATION_ERROR
      | Some so \<Rightarrow>
     (case parse_page (q_page q) of None \<Rightarrow> Inl VALIDATION_ERROR
      | Some p \<Rightarrow>
     (case parse_pageSize (q_pageSize q) of None \<Rightarrow> Inl VALIDATION_ERROR
      | Some ps \<Rightarrow>
     (case optional_flag (q_available q) of None \<Rightarrow> Inl VALIDATION_ERROR
      | Some a \<Rightarrow>
     (case optional_flag (q_featured q) of None \<Rightarrow> Inl VALIDATION_ERROR
      | Some fe \<Rightarrow>
        Inr \<lparr>f_category = c, f_sort = so, f_page = p, f_pageSize = ps,
             f_available = a, f_featured = fe\<rparr>))))))"

section \<open>JavaScript operators and array methods used by the service\<close>

text \<open>
  \<open>x || d\<close> takes \<open>d\<close> when \<open>x\<close> is falsy: \<open>undefined\<close>, the empty string and \<open>0\<close> are
  falsy, every array (the empty one too) is truthy. \<open>x ?? d\<close> takes \<open>d\<close> only when \<open>x\<close> is
  \<open>undefined\<close> or \<open>null\<close>.
\<close>

definition truthy_string :: "string option \<Rightarrow> bool" where
  "truthy_string x = (case x of None \<Rightarrow> False | Some v \<Rightarrow> v \<noteq> [])"

definition or_string :: "string option \<Rightarrow> string \<Rightarrow> string" where
  "or_string x d = (case x of None \<Rightarrow> d | Some v \<Rightarrow> if v = [] then d else v)"

definition or_number :: "int \<Rightarrow> int \<Rightarrow> int" where
  "or_number x d = (if x = 0 then d else x)"

definition or_array :: "'a list option \<Rightarrow> 'a list \<Rightarrow> 'a list" where
  "or_array x d = (case x of None \<Rightarrow> d | Some v \<Rightarrow> v)"

definition nullish :: "'a option \<Rightarrow> 'a \<Rightarrow> 'a" where
  "nullish x d = (case x of None \<Rightarrow> d | Some v \<Rightarrow> v)"

text \<open>
  \<open>Array.prototype.slice(start, end)\<close>: a negative index counts from the end, both are
  clamped to the array, and an empty range gives the empty array.
\<close>

definition slice :: "int \<Rightarrow> int \<Rightarrow> 'a list \<Rightarrow> 'a list" where
  "slice start end xs =
     (let len = int (length xs);
          k = (if start < 0 then max (len + start) 0 else min start len);
          final = (if end < 0 then max (len + end) 0 else min end len)
      in take (nat (final - k)) (drop (nat k) xs))"

text \<open>
  \<open>Array.prototype.sort(comparefn)\<close> is a routine of the JavaScript engine, not of this
  repository. ECMAScript requires it to be stable and fixes nothing else about the
  sequence of comparisons. It is modelled as the stable insertion sort that places the
  elements one after the other, asking \<open>comparefn(new, placed)\<close> (the argument order of
  V8's insertion step) and putting the new element before the first placed element it
  is smaller than.
\<close>

fun insert_by :: "('a \<Rightarrow> 'a \<Rightarrow> rat) \<Rightarrow> 'a \<Rightarrow> 'a list \<Rightarrow> 'a list" where
  "insert_by comparefn x [] = [x]"
| "insert_by comparefn x (y # ys) =
     (if comparefn x y < 0 then x # y # ys else y # insert_by comparefn x ys)"

definition array_sort :: "('a \<Rightarrow> 'a \<Rightarrow> rat) \<Rightarrow> 'a list \<Rightarrow> 'a list" where
  "array_sort comparefn xs = foldl (\<lambda>placed x. insert_by comparefn x placed) [] xs"

section \<open>The service (services/product/productService.ts)\<close>

text \<open>
  \<open>String.prototype.localeCompare\<close> is the engine's collation, taken as the parameter
  \<open>localeCompare\<close>; nothing is assumed about it.
\<close>

text \<open>The three filters of \<open>productList\<close>, in the order of the source.\<close>

definition filterProducts :: "list_filters \<Rightarrow> product list \<Rightarrow> product list" where
  "filterProducts filters products =
     (let products1 =
            (if truthy_string (f_category filters)
             then filter (\<lambda>p. Some (category p) = f_category filters) products
             else products);
          products2 =
            (case f_available filters of
               None \<Rightarrow> products1
             | Some a \<Rightarrow> filter (\<lambda>p. available p = a) products1);
          products3 =
            (case f_featured filters of
               None \<Rightarrow> products2
             | Some fe \<Rightarrow> filter (\<lambda>p. featured p = fe) products2)
      in products3)"

text \<open>The comparator handed to \<open>products.sort\<close>.\<close>

definition comparefn ::
  "(string \<Rightarrow> string \<Rightarrow> int) \<Rightarrow> string \<Rightarrow> product \<Rightarrow> product \<Rightarrow> rat" where
  "comparefn localeCompare sortOrder a b =
     (if featured a \<and> \<not> featured b then - 1
      else if \<not> featured a \<and> featured b then 1
      else if sortOrder = ''newest'' then of_int (dateCreated b - dateCreated a)
      else if sortOrder = ''name-asc'' then of_int (localeCompare (name a) (name b))
      else if sortOrder = ''name-desc'' then of_int (localeCompare (name b) (name a))
      else if sortOrder = ''price-asc'' then
        (case price a of None \<Rightarrow> 1
         | Some pa \<Rightarrow> (case price b of None \<Rightarrow> - 1 | Some pb \<Rightarrow> pa - pb))
      else if sortOrder = ''price-desc'' then
        (case price a of None \<Rightarrow> 1
         | Some pa \<Rightarrow> (case price b of None \<Rightarrow> - 1 | Some pb \<Rightarrow> pb - pa))
      else 0)"

definition sortProducts ::
  "(string \<Rightarrow> string \<Rightarrow> int) \<Rightarrow> list_filters \<Rightarrow> product list \<Rightarrow> product list" where
  "sortProducts localeCompare filters products =
     (let sortOrder = or_string (f_sort filters) ''newest''
      in array_sort (comparefn localeCompare sortOrder) products)"

definition toListItem :: "product \<Rightarrow> list_item" where
  "toListItem p =
     \<lparr>li_id = pid p, li_name = name p, li_mainImage = mainImage p, li_price = price p,
      li_category = category p, li_featured = featured p, li_isNew = isNew p,
      li_onSale = onSale p, li_available = available p\<rparr>"

text \<open>
  Pagination and projection of the filtered and sorted \<open>products\<close>. \<open>totalPages\<close> is
  \<open>Math.ceil(total / pageSize)\<close>.
\<close>

definition paginate :: "list_filters \<Rightarrow> product list \<Rightarrow> list_response" where
  "paginate filters products =
     (let total = int (length products);
          page = or_number (f_page filters) 1;
          pageSize = or_number (f_pageSize filters) 12;
          totalPages = \<lceil>(of_int total :: rat) / of_int pageSize\<rceil>;
          offset = (page - 1) * pageSize;
          paginatedProducts = slice offset (offset + pageSize) products;
          items = map toListItem paginatedProducts
      in \<lparr>r_items = items,
          r_pagination =
            \<lparr>pg_page = page, pg_pageSize = pageSize, pg_total = total,
             pg_totalPages = totalPages, pg_hasNext = (page < totalPages),
             pg_hasPrevious = (page > 1)\<rparr>\<rparr>)"

definition productList ::
  "(string \<Rightarrow> string \<Rightarrow> int) \<Rightarrow> raw_query \<Rightarrow> product_store
     \<Rightarrow> (error + list_response) \<times> product_store" where
  "productList localeCompare query s =
     (case listQuerySchema query of
        Inl e \<Rightarrow> (Inl VALIDATION_ERROR, s)
      | Inr filters \<Rightarrow>
          (let (products, s1) = store_getAll s;
               products = filterProducts filters products;
               products = sortProducts localeCompare filters products
           in (Inr (paginate filters products), s1)))"

definition productGet :: "number \<Rightarrow> product_store \<Rightarrow> (error + product) \<times> product_store" where
  "productGet params s =
     (case paramsSchema params of
        Inl e \<Rightarrow> (Inl VALIDATION_ERROR, s)
      | Inr i \<Rightarrow>
          (let (product, s1) = store_getById i s
           in case product of
                None \<Rightarrow> (Inl NOT_FOUND, s1)
              | Some p \<Rightarrow> (Inr p, s1)))"

text \<open>The object literal \<open>newProduct\<close> of \<open>productCreate\<close>.\<close>

definition newProduct :: "nat \<Rightarrow> int \<Rightarrow> create_input \<Rightarrow> product" where
  "newProduct i now params =
     \<lparr>pid = i,
      name = ci_name params,
      description = ci_description params,
      mainImage = ci_mainImage params,
      images = or_array (ci_images params) [],
      price = ci_price params,
      category = ci_category params,
      shortDescription = ci_shortDescription params,
      dimensions = ci_dimensions params,
      featured = nullish (ci_featured params) DEFAULT_FEATURED,
      isNew = True,
      onSale = nullish (ci_onSale params) DEFAULT_ON_SALE,
      available = nullish (ci_available params) DEFAULT_AVAILABLE,
      dateCreated = now,
      dateModified = now\<rparr>"

definition productCreate ::
  "(string \<Rightarrow> bool) \<Rightarrow> int \<Rightarrow> body \<Rightarrow> product_store \<Rightarrow> (error + product) \<times> product_store" where
  "productCreate isUrl now b s =
     (case createSchema isUrl b of
        Inl e \<Rightarrow> (Inl VALIDATION_ERROR, s)
      | Inr params \<Rightarrow>
          (let (i, s1) = store_getNextId s;
               created = newProduct i now params
           in case store_add created s1 of
                (Inl e, s2) \<Rightarrow> (Inl e, s2)
              | (Inr added, s2) \<Rightarrow> (Inr created, s2)))"

text \<open>
  \<open>Math.floor((now.getTime() - createdDate.getTime()) / (1000 * 60 * 60 * 24))\<close>; on
  integers of this size the floating-point quotient floors to the integer quotient.
\<close>

definition daysSinceCreation :: "int \<Rightarrow> product \<Rightarrow> int" where
  "daysSinceCreation now existing = (now - dateCreated existing) div (1000 * 60 * 60 * 24)"

text \<open>The object literal handed to \<open>productStore.update\<close>.\<close>

definition updateFields :: "int \<Rightarrow> update_input \<Rightarrow> product \<Rightarrow> product_patch" where
  "updateFields now updateData existing =
     \<lparr>pt_id = None,
      pt_name = Some (ui_name updateData),
      pt_description = Some (ui_description updateData),
      pt_mainImage = Some (ui_mainImage updateData),
      pt_images = Some (or_array (ui_images updateData) (images existing)),
      pt_price = Some (ui_price updateData),
      pt_category = Some (ui_category updateData),
      pt_shortDescription = Some (ui_shortDescription updateData),
      pt_dimensions = Some (ui_dimensions updateData),
      pt_featured = Some (ui_featured updateData),
      pt_isNew = Some (daysSinceCreation now existing \<le> 30),
      pt_onSale = Some (ui_onSale updateData),
      pt_available = Some (ui_available updateData),
      pt_dateCreated = None,
      pt_dateModified = Some now\<rparr>"

text \<open>
  \<open>productUpdate\<close> returns \<open>updated as ProductEntity\<close>, which is what \<open>productStore.update\<close>
  gave: the result keeps the option.
\<close>

definition productUpdate ::
  "(string \<Rightarrow> bool) \<Rightarrow> int \<Rightarrow> number \<Rightarrow> body \<Rightarrow> product_store
     \<Rightarrow> (error + product option) \<times> product_store" where
  "productUpdate isUrl now params b s =
     (case paramsSchema params of
        Inl e \<Rightarrow> (Inl VALIDATION_ERROR, s)
      | Inr i \<Rightarrow>
     (case updateSchema isUrl b of
        Inl e \<Rightarrow> (Inl VALIDATION_ERROR, s)
      | Inr updateData \<Rightarrow>
          (let (found, s1) = store_getById i s
           in case found of
                None \<Rightarrow> (Inl NOT_FOUND, s1)
              | Some existing \<Rightarrow>
                  (let (updated, s2) = store_update i (updateFields now updateData existing) s1
                   in (Inr updated, s2)))))"

definition productDelete :: "number \<Rightarrow> product_store \<Rightarrow> (error + string) \<times> product_store" where
  "productDelete params s =
     (case paramsSchema params of
        Inl e \<Rightarrow> (Inl VALIDATION_ERROR, s)
      | Inr i \<Rightarrow>
          (let (present, s1) = store_exists i s
           in if \<not> present then (Inl NOT_FOUND, s1)
              else (let (removed, s2) = store_delete i s1
                    in (Inr ''Product deleted successfully'', s2))))"

section \<open>The selection of the list operation, as the specification words it\<close>



section \<open>Sequences of store operations\<close>

text \<open>
  The public methods of \<open>ProductStore\<close> as commands, to speak about every sequence of
  calls. \<open>store_step\<close> runs one call and reports the identifier when the call was
  \<open>getNextId\<close>; a call that throws (\<open>add\<close> on a full store) leaves the store as it was.
  \<open>allocated\<close> lists the identifiers a sequence of calls hands out, in order.
\<close>

datatype store_op =
    GetNextId
  | GetAll
  | GetById nat
  | Add product
  | Update nat product_patch
  | Delete nat
  | Exists nat
  | Count
  | Clear

fun store_step :: "store_op \<Rightarrow> product_store \<Rightarrow> nat option \<times> product_store" where
  "store_step GetNextId s = (Some (fst (store_getNextId s)), snd (store_getNextId s))"
| "store_step GetAll s = (None, snd (store_getAll s))"
| "store_step (GetById i) s = (None, snd (store_getById i s))"
| "store_step (Add record) s = (None, snd (store_add record s))"
| "store_step (Update i data) s = (None, snd (store_update i data s))"
| "store_step (Delete i) s = (None, snd (store_delete i s))"
| "store_step (Exists i) s = (None, snd (store_exists i s))"
| "store_step Count s = (None, snd (store_count s))"
| "store_step Clear s = (None, store_clear s)"

fun allocated :: "store_op list \<Rightarrow> product_store \<Rightarrow> nat list" where
  "allocated [] s = []"
| "allocated (op # ops) s =
     (case fst (store_step op s) of
        None \<Rightarrow> allocated ops (snd (store_step op s))
      | Some i \<Rightarrow> i # allocated ops (snd (store_step op s)))"

section \<open>Sample data\<close>

text \<open>
  Concrete inputs on which the theorems below are instantiated: a collation and a URL
  check to stand for the engine's, a product, some stores, a request body and a query.
\<close>

definition sampleCompare :: "string \<Rightarrow> string \<Rightarrow> int" where
  "sampleCompare a b = int (length a) - int (length b)"

definition sampleIsUrl :: "string \<Rightarrow> bool" where
  "sampleIsUrl u = (take 8 u = ''https://'')"

definition sample_product :: "nat \<Rightarrow> bool \<Rightarrow> rat option \<Rightarrow> int \<Rightarrow> product" where
  "sample_product i fe pr created =
     \<lparr>pid = i, name = ''Sofa'', description = None,
      mainImage = ''https://example.com/sofa.jpg'',
      images = [''https://example.com/side.jpg''],
      price = pr, category = LIVING_ROOM, shortDescription = None, dimensions = None,
      featured = fe, isNew = True, onSale = False, available = True,
      dateCreated = created, dateModified = created\<rparr>"

definition empty_store :: product_store where
  "empty_store = \<lparr>records = [], currentId = 0\<rparr>"

definition one_product :: product_store where
  "one_product = \<lparr>records = [(1, sample_product 1 False (Some 100) 0)], currentId = 1\<rparr>"

definition three_products :: product_store where
  "three_products =
     \<lparr>records = [(1, sample_product 1 False (Some 100) 0),
                 (2, sample_product 2 True None 0),
                 (3, sample_product 3 False None 0)],
      currentId = 3\<rparr>"


definition full_store :: product_store where
  "full_store =
     \<lparr>records = map (\<lambda>i. (i, sample_product i False None 0)) [1..<10001],
      currentId = 10000\<rparr>"

definition sample_body :: body where
  "sample_body =
     \<lparr>b_name = Present ''Sofa'', b_description = Present None,
      b_mainImage = Present ''https://example.com/sofa.jpg'', b_images = Absent,
      b_price = Present (Some 2500), b_category = Present LIVING_ROOM,
      b_shortDescription = Present None, b_dimensions = Present None,
      b_featured = Present False, b_onSale = Present False, b_available = Present True\<rparr>"

definition empty_query :: raw_query where
  "empty_query =
     \<lparr>q_category = Absent, q_sort = Absent, q_page = None, q_pageSize = None,
      q_available = Absent, q_featured = Absent\<rparr>"

text \<open>
  The page the list operation returns on \<open>three_products\<close> when nothing is filtered: the
  featured product first.
\<close>

definition three_products_page :: list_response where
  "three_products_page =
     \<lparr>r_items = map toListItem
        [sample_product 2 True None 0, sample_product 1 False (Some 100) 0,
         sample_product 3 False None 0],
      r_pagination =
        \<lparr>pg_page = 1, pg_pageSize = 12, pg_total = 3, pg_totalPages = 1,
         pg_hasNext = False, pg_hasPrevious = False\<rparr>\<rparr>"

text \<open>
  The record that \<open>one_product\<close> holds after an update with \<open>sample_body\<close> at time \<open>t\<close>.
\<close>

definition updated_product :: "int \<Rightarrow> bool \<Rightarrow> product" where
  "updated_product t new =
     \<lparr>pid = 1, name = ''Sofa'', description = None,
      mainImage = ''https://example.com/sofa.jpg'', images = [],
      price = Some 2500, category = LIVING_ROOM, shortDescription = None, dimensions = None,
      featured = False, isNew = new, onSale = False, available = True,
      dateCreated = 0, dateModified = t\<rparr>"

section \<open>Ranks\<close>

text \<open>
  A comparator agrees with a rank when it never puts an element of higher rank before
  one of lower rank; the rank of a product says in which block of the sorted list it
  stands: featured before the others and, for the price orders, priced before unpriced
  within each.
\<close>

definition agrees_with :: "('a \<Rightarrow> 'a \<Rightarrow> rat) \<Rightarrow> ('a \<Rightarrow> nat) \<Rightarrow> bool" where
  "agrees_with c rk \<longleftrightarrow>
     (\<forall>a b. (c a b < 0 \<longrightarrow> rk a \<le> rk b) \<and> (\<not> c a b < 0 \<longrightarrow> rk b \<le> rk a))"

definition featured_rank :: "product \<Rightarrow> nat" where
  "featured_rank p = (if featured p then 0 else 1)"

definition price_rank :: "product \<Rightarrow> nat" where
  "price_rank p = (if featured p then 0 else 2) + (if price p = None then 1 else 0)"

section \<open>Lemmas\<close>

subsection \<open>The sort and the slice\<close>




lemma set_insert_by: "set (insert_by c x ys) = insert x (set ys)"
  by (induction ys) auto

lemma insert_by_ranked:
  assumes "agrees_with c rk" and "sorted_wrt (\<lambda>a b. rk a \<le> rk b) ys"
  shows "sorted_wrt (\<lambda>a b. rk a \<le> rk b) (insert_by c x ys)"
  using assms(2)
proof (induction ys)
  case Nil
  then show ?case by simp
next
  case (Cons y ys)
  show ?case
  proof (cases "c x y < 0")
    case True
    then have "rk x \<le> rk y" using assms(1) by (simp add: agrees_with_def)
    with Cons.prems True show ?thesis by fastforce
  next
    case False
    then have "rk y \<le> rk x" using assms(1) by (simp add: agrees_with_def)
    with Cons False show ?thesis by (auto simp: set_insert_by)
  qed
qed

lemma foldl_insert_by_ranked:
  assumes "agrees_with c rk" and "sorted_wrt (\<lambda>a b. rk a \<le> rk b) acc"
  shows "sorted_wrt (\<lambda>a b. rk a \<le> rk b) (foldl (\<lambda>placed x. insert_by c x placed) acc xs)"
  using assms(2) by (induction xs arbitrary: acc) (auto intro: insert_by_ranked [OF assms(1)])

lemma array_sort_ranked:
  "agrees_with c rk \<Longrightarrow> sorted_wrt (\<lambda>a b. rk a \<le> rk b) (array_sort c xs)"
  by (simp add: array_sort_def foldl_insert_by_ranked)

lemma slice_ranked:
  "sorted_wrt P xs \<Longrightarrow> sorted_wrt P (slice a b xs)"
  by (simp add: slice_def Let_def sorted_wrt_take sorted_wrt_drop)

lemma comparefn_featured: "agrees_with (comparefn lc so) featured_rank"
  by (auto simp: agrees_with_def comparefn_def featured_rank_def)

lemma comparefn_price:
  "so = ''price-asc'' \<or> so = ''price-desc'' \<Longrightarrow> agrees_with (comparefn lc so) price_rank"
  by (auto simp: agrees_with_def comparefn_def price_rank_def split: option.splits)


subsection \<open>What an accepted query holds\<close>

lemma listQuerySchema_Inr:
  assumes "listQuerySchema q = Inr f"
  shows "optional_enum PRODUCT_CATEGORIES (q_category q) = Some (f_category f)"
    and "optional_enum SORT_VALUES (q_sort q) = Some (f_sort f)"
    and "parse_page (q_page q) = Some (f_page f)"
    and "parse_pageSize (q_pageSize q) = Some (f_pageSize f)"
    and "optional_flag (q_available q) = Some (f_available f)"
    and "optional_flag (q_featured q) = Some (f_featured f)"
  using assms by (auto simp: listQuerySchema_def split: option.splits)

lemma integral_pos_floor:
  assumes "of_int \<lfloor>r\<rfloor> = r" and "(r::rat) > 0"
  shows "1 \<le> \<lfloor>r\<rfloor>"
proof -
  define k where "k = \<lfloor>r\<rfloor>"
  have "of_int k = r" using assms(1) by (simp only: k_def)
  with assms(2) have "(0::rat) < of_int k" by (simp only:)
  then have "0 < k" by (simp only: of_int_0_less_iff)
  then have "1 \<le> k" by arith
  then show ?thesis by (simp only: k_def)
qed




subsection \<open>The list operation, unfolded\<close>

lemma productList_Inr:
  assumes "listQuerySchema q = Inr f"
  shows "productList lc q s =
           (Inr (paginate f (sortProducts lc f (filterProducts f (map snd (records s))))), s)"
  using assms by (simp add: productList_def store_getAll_def)

lemma productList_cases:
  assumes "productList lc q s = (Inr r, s')"
  obtains f where "listQuerySchema q = Inr f"
    and "r = paginate f (sortProducts lc f (filterProducts f (map snd (records s))))"
    and "s' = s"
proof (cases "listQuerySchema q")
  case (Inl e)
  with assms show ?thesis by (simp add: productList_def)
next
  case (Inr f)
  have "productList lc q s =
          (Inr (paginate f (sortProducts lc f (filterProducts f (map snd (records s))))), s)"
    by (rule productList_Inr [OF Inr])
  with assms have "r = paginate f (sortProducts lc f (filterProducts f (map snd (records s))))"
    and "s' = s" by auto
  with Inr show ?thesis by (rule that)
qed

lemma r_items_paginate:
  "r_items (paginate f products) =
     map toListItem (slice ((or_number (f_page f) 1 - 1) * or_number (f_pageSize f) 12)
        ((or_number (f_page f) 1 - 1) * or_number (f_pageSize f) 12 + or_number (f_pageSize f) 12)
        products)"
  by (simp add: paginate_def Let_def)

lemma sort_order_price:
  assumes "listQuerySchema q = Inr f"
    and "q_sort q = Present ''price-asc'' \<or> q_sort q = Present ''price-desc''"
  shows "or_string (f_sort f) ''newest'' = ''price-asc'' \<or>
         or_string (f_sort f) ''newest'' = ''price-desc''"
proof -
  from assms(2) have "f_sort f = Some ''price-asc'' \<or> f_sort f = Some ''price-desc''"
    using listQuerySchema_Inr(2) [OF assms(1)] by (auto simp: SORT_VALUES_def)
  then show ?thesis by (auto simp: or_string_def)
qed



lemma r_pagination_paginate:
  "r_pagination (paginate f products) =
     \<lparr>pg_page = or_number (f_page f) 1, pg_pageSize = or_number (f_pageSize f) 12,
      pg_total = int (length products),
      pg_totalPages = \<lceil>(of_int (int (length products)) :: rat) / of_int (or_number (f_pageSize f) 12)\<rceil>,
      pg_hasNext = (or_number (f_page f) 1 <
         \<lceil>(of_int (int (length products)) :: rat) / of_int (or_number (f_pageSize f) 12)\<rceil>),
      pg_hasPrevious = (or_number (f_page f) 1 > 1)\<rparr>"
  by (simp add: paginate_def Let_def)

subsection \<open>Get, create, update and delete, unfolded\<close>

lemma map_of_map_set: "map_of (map_set k v kvs) k = Some v"
  by (induction kvs) auto

lemma paramsSchema_of_nat: "0 < k \<Longrightarrow> paramsSchema (Finite (of_nat k)) = Inr k"
  by (simp add: paramsSchema_def)

lemma pid_newProduct: "pid (newProduct i now params) = i"
  by (simp add: newProduct_def)

lemma productCreate_invalid:
  "createSchema isUrl b = Inl e \<Longrightarrow> productCreate isUrl now b s = (Inl VALIDATION_ERROR, s)"
  by (simp add: productCreate_def)

lemma productCreate_valid:
  assumes "createSchema isUrl b = Inr params"
  shows "productCreate isUrl now b s =
    (if MAX_RECORDS \<le> length (records s)
     then (Inl LIMIT_REACHED, s\<lparr>currentId := currentId s + 1\<rparr>)
     else (Inr (newProduct (currentId s + 1) now params),
           s\<lparr>currentId := currentId s + 1,
             records := map_set (currentId s + 1) (newProduct (currentId s + 1) now params)
               (records s)\<rparr>))"
  using assms
  by (simp add: productCreate_def store_getNextId_def store_add_def Let_def pid_newProduct)

lemma productCreate_Inr:
  assumes "productCreate isUrl now b s = (Inr p, s')"
  shows "pid p = currentId s + 1" and "isNew p" and "dateCreated p = now"
    and "s' = s\<lparr>currentId := currentId s + 1, records := map_set (pid p) p (records s)\<rparr>"
    and "length (records s) < MAX_RECORDS"
proof -
  obtain params where v: "createSchema isUrl b = Inr params"
    using assms by (cases "createSchema isUrl b") (simp_all add: productCreate_def)
  have small: "\<not> MAX_RECORDS \<le> length (records s)"
    using assms productCreate_valid [OF v, of now s] by (auto split: if_splits)
  then show "length (records s) < MAX_RECORDS" by simp
  have p: "p = newProduct (currentId s + 1) now params"
    using assms productCreate_valid [OF v, of now s] small by simp
  show "pid p = currentId s + 1" "isNew p" "dateCreated p = now"
    by (simp_all add: p newProduct_def)
  then show "s' = s\<lparr>currentId := currentId s + 1, records := map_set (pid p) p (records s)\<rparr>"
    using assms productCreate_valid [OF v, of now s] small p by simp
qed

lemma productCreate_Inl:
  assumes "productCreate isUrl now b s = (Inl e, s')"
  shows "e = VALIDATION_ERROR \<and> s' = s \<or>
         e = LIMIT_REACHED \<and> s' = s\<lparr>currentId := currentId s + 1\<rparr> \<and>
           MAX_RECORDS \<le> length (records s)"
proof (cases "createSchema isUrl b")
  case (Inl x)
  with assms show ?thesis by (simp add: productCreate_def)
next
  case (Inr params)
  with assms productCreate_valid [OF Inr, of now s] show ?thesis by (auto split: if_splits)
qed

lemma productGet_Inl: "productGet params s = (Inl e, s') \<Longrightarrow> s' = s"
  by (auto simp: productGet_def store_getById_def split: sum.splits option.splits)

lemma productDelete_Inl: "productDelete params s = (Inl e, s') \<Longrightarrow> s' = s"
  by (auto simp: productDelete_def store_exists_def store_delete_def Let_def
           split: sum.splits if_splits)

lemma productDelete_currentId: "productDelete params s = (res, s') \<Longrightarrow> currentId s' = currentId s"
  by (auto simp: productDelete_def store_exists_def store_delete_def Let_def
           split: sum.splits if_splits)

lemma productUpdate_found:
  assumes "paramsSchema params = Inr i" and "updateSchema isUrl b = Inr updateData"
    and "map_of (records s) i = Some existing"
  shows "productUpdate isUrl now params b s =
     (Inr (Some (spread existing (updateFields now updateData existing))),
      s\<lparr>records := map_set i (spread existing (updateFields now updateData existing)) (records s)\<rparr>)"
  using assms by (simp add: productUpdate_def store_getById_def store_update_def Let_def)

lemma productUpdate_Inl: "productUpdate isUrl now params b s = (Inl e, s') \<Longrightarrow> s' = s"
  by (auto simp: productUpdate_def store_getById_def store_update_def Let_def
           split: sum.splits option.splits)

lemma productUpdate_Inr:
  assumes "productUpdate isUrl now params b s = (Inr u, s')"
  obtains i updateData existing where
    "paramsSchema params = Inr i" and "updateSchema isUrl b = Inr updateData" and
    "map_of (records s) i = Some existing" and
    "u = Some (spread existing (updateFields now updateData existing))" and
    "s' = s\<lparr>records := map_set i (spread existing (updateFields now updateData existing)) (records s)\<rparr>"
proof -
  obtain i where i: "paramsSchema params = Inr i"
    using assms by (cases "paramsSchema params") (simp_all add: productUpdate_def)
  obtain updateData where d: "updateSchema isUrl b = Inr updateData"
    using assms i by (cases "updateSchema isUrl b") (simp_all add: productUpdate_def)
  obtain existing where e: "map_of (records s) i = Some existing"
    using assms i d by (cases "map_of (records s) i")
      (simp_all add: productUpdate_def store_getById_def)
  from assms productUpdate_found [OF i d e, of now] that [OF i d e] show thesis by simp
qed

lemma spread_updateFields:
  "isNew (spread existing (updateFields now updateData existing)) =
     (daysSinceCreation now existing \<le> 30)"
  "images (spread existing (updateFields now updateData existing)) =
     or_array (ui_images updateData) (images existing)"
  "dateCreated (spread existing (updateFields now updateData existing)) = dateCreated existing"
  "pid (spread existing (updateFields now updateData existing)) = pid existing"
  "dateModified (spread existing (updateFields now updateData existing)) = now"
  by (simp_all add: spread_def updateFields_def)

lemma updateSchema_images:
  "updateSchema isUrl b = Inr updateData \<Longrightarrow> b_images b = Absent \<Longrightarrow> ui_images updateData = Some []"
  by (auto simp: updateSchema_def split: if_splits)

lemma days_le_30: "(d div (1000 * 60 * 60 * 24) \<le> 30) = (d < 31 * 86400000)" for d :: int
proof -
  define q r where "q = d div 86400000" and "r = d mod 86400000"
  have "d = 86400000 * q + r" by (simp add: q_def r_def)
  moreover have "0 \<le> r" "r < 86400000" by (simp_all add: r_def)
  ultimately have "(q \<le> 30) = (d < 31 * 86400000)" by linarith
  then show ?thesis by (simp add: q_def)
qed

lemmas category_defs = PRODUCT_CATEGORIES_def LIVING_ROOM_def BEDROOM_def KITCHEN_def
  OFFICE_def BATHROOM_def OUTDOOR_def

lemmas list_defs = productList_def listQuerySchema_def store_getAll_def filterProducts_def
  sortProducts_def paginate_def array_sort_def comparefn_def slice_def
  or_string_def or_number_def truthy_string_def empty_query_def SORT_VALUES_def Let_def

subsection \<open>The operations on the sample data\<close>

lemma ceiling_unit_fraction: "\<lceil>1 / numeral n :: rat\<rceil> = 1"
  by (rule ceiling_unique) simp_all

lemma eval_list_three:
  "productList sampleCompare empty_query three_products = (Inr three_products_page, three_products)"
  by (simp add: list_defs category_defs three_products_def three_products_page_def
        sample_product_def ceiling_unit_fraction)

lemma eval_list_three_price:
  "productList sampleCompare (empty_query\<lparr>q_sort := Present ''price-asc''\<rparr>) three_products =
     (Inr three_products_page, three_products)"
  by (simp add: list_defs category_defs three_products_def three_products_page_def
        sample_product_def ceiling_unit_fraction)

lemma eval_items_three:
  "r_items three_products_page =
     [toListItem (sample_product 2 True None 0), toListItem (sample_product 1 False (Some 100) 0),
      toListItem (sample_product 3 False None 0)]"
  by (simp add: three_products_page_def)

lemma eval_item_fields:
  "li_featured (toListItem (sample_product i fe pr t)) = fe"
  "li_price (toListItem (sample_product i fe pr t)) = pr"
  by (simp_all add: toListItem_def sample_product_def)


lemmas body_defs = createSchema_def updateSchema_def valid_common_def sample_body_def
  sampleIsUrl_def NAME_MAX_LENGTH_def DESCRIPTION_MAX_LENGTH_def
  SHORT_DESCRIPTION_MAX_LENGTH_def DIMENSIONS_MAX_LENGTH_def

lemma eval_createSchema:
  "createSchema sampleIsUrl sample_body =
     Inr \<lparr>ci_name = ''Sofa'', ci_description = None,
          ci_mainImage = ''https://example.com/sofa.jpg'', ci_images = Some [],
          ci_price = Some 2500, ci_category = LIVING_ROOM, ci_shortDescription = None,
          ci_dimensions = None, ci_featured = Some False, ci_onSale = Some False,
          ci_available = Some True\<rparr>"
  by (simp add: body_defs category_defs)

lemma eval_updateSchema:
  "updateSchema sampleIsUrl sample_body =
     Inr \<lparr>ui_name = ''Sofa'', ui_description = None,
          ui_mainImage = ''https://example.com/sofa.jpg'', ui_images = Some [],
          ui_price = Some 2500, ui_category = LIVING_ROOM, ui_shortDescription = None,
          ui_dimensions = None, ui_featured = False, ui_onSale = False,
          ui_available = True\<rparr>"
  by (simp add: body_defs category_defs)

lemma eval_update:
  "productUpdate sampleIsUrl t (Finite 1) sample_body one_product =
     (Inr (Some (updated_product t (t div 86400000 \<le> 30))),
      \<lparr>records = [(1, updated_product t (t div 86400000 \<le> 30))], currentId = 1\<rparr>)"
proof -
  have i: "paramsSchema (Finite 1) = Inr 1" by (simp add: paramsSchema_def)
  have e: "map_of (records one_product) 1 = Some (sample_product 1 False (Some 100) 0)"
    by (simp add: one_product_def)
  show ?thesis
    unfolding productUpdate_found [OF i eval_updateSchema e]
    by (simp add: spread_def updateFields_def daysSinceCreation_def or_array_def
          updated_product_def sample_product_def one_product_def)
qed

lemma eval_create_empty:
  "productCreate sampleIsUrl 5 sample_body empty_store =
     (Inr ((updated_product 5 True)\<lparr>dateCreated := 5\<rparr>),
      \<lparr>records = [(1, (updated_product 5 True)\<lparr>dateCreated := 5\<rparr>)], currentId = 1\<rparr>)"
  unfolding productCreate_valid [OF eval_createSchema]
  by (simp add: empty_store_def MAX_RECORDS_def newProduct_def updated_product_def
        or_array_def nullish_def)

lemma length_full_store: "length (records full_store) = 10000"
  by (simp only: full_store_def product_store.simps length_map length_upt)

lemma eval_create_full:
  "productCreate sampleIsUrl 5 sample_body full_store =
     (Inl LIMIT_REACHED, full_store\<lparr>currentId := currentId full_store + 1\<rparr>)"
  unfolding productCreate_valid [OF eval_createSchema]
  by (simp add: length_full_store MAX_RECORDS_def)

lemma productUpdate_omitted_images:
  assumes "productUpdate isUrl now params b s = (Inr u, s')" and "b_images b = Absent"
  shows "\<exists>updated. u = Some updated \<and> images updated = []"
proof -
  from assms(1) obtain i updateData existing where
    d: "updateSchema isUrl b = Inr updateData" and
    u: "u = Some (spread existing (updateFields now updateData existing))"
    by (rule productUpdate_Inr)
  have "ui_images updateData = Some []"
    using d assms(2) by (rule updateSchema_images)
  then show ?thesis by (simp add: u spread_updateFields(2) or_array_def)
qed

subsection \<open>Failures and sequences of store operations\<close>

lemma productList_Inl: "productList lc q s = (Inl e, s') \<Longrightarrow> s' = s"
  by (cases "listQuerySchema q") (auto simp: productList_def store_getAll_def)

lemma store_step_currentId:
  "op \<noteq> Clear \<Longrightarrow> currentId s \<le> currentId (snd (store_step op s))"
  by (cases op)
    (simp_all add: store_getNextId_def store_getAll_def store_getById_def store_add_def
      store_update_def store_delete_def store_exists_def store_count_def Let_def
      split: option.splits)

lemma store_step_allocates:
  "fst (store_step op s) = Some i \<Longrightarrow> currentId s < i \<and> currentId (snd (store_step op s)) = i"
  by (cases op) (simp_all add: store_getNextId_def)

lemma allocated_above:
  "Clear \<notin> set ops \<Longrightarrow> i \<in> set (allocated ops s) \<Longrightarrow> currentId s < i"
proof (induction ops arbitrary: s)
  case Nil
  then show ?case by simp
next
  case (Cons op ops)
  from Cons.prems(1) have op: "op \<noteq> Clear" and ops: "Clear \<notin> set ops" by auto
  have mono: "currentId s \<le> currentId (snd (store_step op s))"
    using op by (rule store_step_currentId)
  show ?case
  proof (cases "fst (store_step op s)")
    case None
    with Cons.prems(2) have "i \<in> set (allocated ops (snd (store_step op s)))" by simp
    from Cons.IH [OF ops this] mono show ?thesis by simp
  next
    case (Some j)
    with Cons.prems(2) have "i = j \<or> i \<in> set (allocated ops (snd (store_step op s)))"
      by simp
    then show ?thesis
    proof
      assume "i = j"
      with store_step_allocates [OF Some] show ?thesis by simp
    next
      assume "i \<in> set (allocated ops (snd (store_step op s)))"
      from Cons.IH [OF ops this] mono show ?thesis by simp
    qed
  qed
qed

lemma allocated_increasing:
  "Clear \<notin> set ops \<Longrightarrow> sorted_wrt (<) (allocated ops s)"
proof (induction ops arbitrary: s)
  case Nil
  then show ?case by simp
next
  case (Cons op ops)
  from Cons.prems have ops: "Clear \<notin> set ops" by auto
  show ?case
  proof (cases "fst (store_step op s)")
    case None
    with Cons.IH [OF ops] show ?thesis by simp
  next
    case (Some j)
    have "j < i" if "i \<in> set (allocated ops (snd (store_step op s)))" for i
      using allocated_above [OF ops that] store_step_allocates [OF Some] by simp
    with Some Cons.IH [OF ops] show ?thesis by simp
  qed
qed

lemma eval_delete_created:
  "productDelete (Finite (of_nat (pid ((updated_product 5 True)\<lparr>dateCreated := 5\<rparr>))))
     \<lparr>records = [(1, (updated_product 5 True)\<lparr>dateCreated := 5\<rparr>)], currentId = 1\<rparr> =
   (Inr ''Product deleted successfully'', \<lparr>records = [], currentId = 1\<rparr>)"
  by (simp add: productDelete_def paramsSchema_def store_exists_def store_delete_def
        map_delete_def updated_product_def)

lemma eval_create_again:
  "productCreate sampleIsUrl 9 sample_body \<lparr>records = [], currentId = 1\<rparr> =
     (Inr ((updated_product 9 True)\<lparr>pid := 2, dateCreated := 9\<rparr>),
      \<lparr>records = [(2, (updated_product 9 True)\<lparr>pid := 2, dateCreated := 9\<rparr>)], currentId = 2\<rparr>)"
  unfolding productCreate_valid [OF eval_createSchema]
  by (simp add: MAX_RECORDS_def newProduct_def updated_product_def or_array_def nullish_def)

lemma eval_allocated:
  "allocated [GetNextId, Add (sample_product 1 False None 0), Delete 1, GetNextId] empty_store
     = [1, 2]"
  by (simp add: store_getNextId_def store_add_def store_delete_def empty_store_def
        MAX_RECORDS_def map_delete_def sample_product_def)

lemma eval_list_invalid:
  "productList sampleCompare (empty_query\<lparr>q_category := Present ''invalid-value''\<rparr>)
     three_products = (Inl VALIDATION_ERROR, three_products)"
  by (simp add: productList_def listQuerySchema_def empty_query_def category_defs)

subsection \<open>The filters keep what the query selects\<close>








section \<open>The list operation\<close>



text \<open>
  C2. In the items of every successful \<open>productList\<close>, whatever the sort and whatever
  \<open>localeCompare\<close> does, an item with \<open>featured = true\<close> stands before every item with
  \<open>featured = false\<close>.
\<close>

theorem productList_featured_first:
  assumes "productList localeCompare query s = (Inr r, s')"
    and "i < length (r_items r)" and "j < length (r_items r)"
    and "li_featured (r_items r ! i)" and "\<not> li_featured (r_items r ! j)"
  shows "i < j"
proof (rule ccontr)
  assume "\<not> i < j"
  from assms(1) obtain f where
    r: "r = paginate f (sortProducts localeCompare f (filterProducts f (map snd (records s))))"
    by (rule productList_cases)
  define ps where "ps = slice ((or_number (f_page f) 1 - 1) * or_number (f_pageSize f) 12)
        ((or_number (f_page f) 1 - 1) * or_number (f_pageSize f) 12 + or_number (f_pageSize f) 12)
        (sortProducts localeCompare f (filterProducts f (map snd (records s))))"
  have items: "r_items r = map toListItem ps"
    by (simp add: r r_items_paginate ps_def)
  have "sorted_wrt (\<lambda>a b. featured_rank a \<le> featured_rank b) ps"
    unfolding ps_def sortProducts_def Let_def
    by (intro slice_ranked array_sort_ranked comparefn_featured)
  moreover have len: "i < length ps" "j < length ps"
    using assms(2,3) by (simp_all add: items)
  moreover have "i \<noteq> j" using assms(4,5) by auto
  with \<open>\<not> i < j\<close> have "j < i" by simp
  ultimately have "featured_rank (ps ! j) \<le> featured_rank (ps ! i)"
    using sorted_wrt_nth_less [of _ ps j i] by simp
  moreover have "featured (ps ! i)" "\<not> featured (ps ! j)"
    using assms(4,5) len by (simp_all add: items toListItem_def)
  ultimately show False by (simp add: featured_rank_def)
qed

theorem productList_featured_first_witness:
  "productList sampleCompare empty_query three_products = (Inr three_products_page, three_products)
   \<and> 0 < length (r_items three_products_page) \<and> 1 < length (r_items three_products_page)
   \<and> li_featured (r_items three_products_page ! 0)
   \<and> \<not> li_featured (r_items three_products_page ! 1) \<and> (0::nat) < 1"
  using productList_featured_first [of sampleCompare empty_query three_products
      three_products_page three_products 0 1] eval_list_three
  by (simp add: eval_items_three eval_item_fields)

text \<open>
  C3 as stated fails: the featured flag is the first key of the comparator, so with
  \<open>sort = price-asc\<close> a featured product without a price is listed before a product that
  has a price and is not featured.
\<close>

theorem productList_null_price_counterexample:
  "productList sampleCompare (empty_query\<lparr>q_sort := Present ''price-asc''\<rparr>) three_products =
     (Inr three_products_page, three_products)
   \<and> li_price (r_items three_products_page ! 0) = None
   \<and> li_price (r_items three_products_page ! 1) = Some 100"
  using eval_list_three_price by (simp add: eval_items_three eval_item_fields)

text \<open>
  C3, amended. With \<open>sort = price-asc\<close> or \<open>sort = price-desc\<close>, among the items with the
  same \<open>featured\<close> flag every item with a price stands before every item whose price is
  \<open>null\<close>.
\<close>

theorem productList_null_price_last:
  assumes "productList localeCompare query s = (Inr r, s')"
    and "q_sort query = Present ''price-asc'' \<or> q_sort query = Present ''price-desc''"
    and "i < length (r_items r)" and "j < length (r_items r)"
    and "li_price (r_items r ! i) \<noteq> None" and "li_price (r_items r ! j) = None"
    and "li_featured (r_items r ! i) = li_featured (r_items r ! j)"
  shows "i < j"
proof (rule ccontr)
  assume "\<not> i < j"
  from assms(1) obtain f where f: "listQuerySchema query = Inr f" and
    r: "r = paginate f (sortProducts localeCompare f (filterProducts f (map snd (records s))))"
    by (rule productList_cases)
  define ps where "ps = slice ((or_number (f_page f) 1 - 1) * or_number (f_pageSize f) 12)
        ((or_number (f_page f) 1 - 1) * or_number (f_pageSize f) 12 + or_number (f_pageSize f) 12)
        (sortProducts localeCompare f (filterProducts f (map snd (records s))))"
  have items: "r_items r = map toListItem ps"
    by (simp add: r r_items_paginate ps_def)
  have "sorted_wrt (\<lambda>a b. price_rank a \<le> price_rank b) ps"
    unfolding ps_def sortProducts_def Let_def
    by (intro slice_ranked array_sort_ranked comparefn_price sort_order_price [OF f assms(2)])
  moreover have len: "i < length ps" "j < length ps"
    using assms(3,4) by (simp_all add: items)
  moreover have "i \<noteq> j" using assms(5,6) by auto
  with \<open>\<not> i < j\<close> have "j < i" by simp
  ultimately have "price_rank (ps ! j) \<le> price_rank (ps ! i)"
    using sorted_wrt_nth_less [of _ ps j i] by simp
  moreover have "price (ps ! i) \<noteq> None" "price (ps ! j) = None"
    "featured (ps ! i) = featured (ps ! j)"
    using assms(5,6,7) len by (simp_all add: items toListItem_def)
  ultimately show False by (simp add: price_rank_def split: if_splits)
qed

theorem productList_null_price_last_witness:
  "productList sampleCompare (empty_query\<lparr>q_sort := Present ''price-asc''\<rparr>) three_products =
     (Inr three_products_page, three_products)
   \<and> q_sort (empty_query\<lparr>q_sort := Present ''price-asc''\<rparr>) = Present ''price-asc''
   \<and> 1 < length (r_items three_products_page) \<and> 2 < length (r_items three_products_page)
   \<and> li_price (r_items three_products_page ! 1) \<noteq> None
   \<and> li_price (r_items three_products_page ! 2) = None
   \<and> li_featured (r_items three_products_page ! 1) = li_featured (r_items three_products_page ! 2)
   \<and> (1::nat) < 2"
  using productList_null_price_last [of sampleCompare "empty_query\<lparr>q_sort := Present ''price-asc''\<rparr>"
      three_products three_products_page three_products 1 2] eval_list_three_price
  by (simp add: eval_items_three eval_item_fields)

text \<open>
  C8. \<open>productList\<close> fails with \<open>VALIDATION_ERROR\<close>, returning no response and leaving the
  store alone, whenever the query carries a category that is not one of the six, a sort
  that is not one of the five, a page size that is not 12, 24, 36 or 48, or a page that is
  not an integer from 1 up. A missing page behaves exactly as page 1 and a missing page
  size exactly as page size 12, and a response to a query with neither reports page 1 and
  page size 12.
\<close>

theorem productList_rejects_invalid_query:
  "(q_category query \<notin> insert Absent (Present ` set PRODUCT_CATEGORIES) \<or>
    q_sort query \<notin> insert Absent (Present ` set SORT_VALUES) \<or>
    q_pageSize query \<notin> insert None (Some ` Finite ` {12, 24, 36, 48}) \<or>
    q_page query \<notin> insert None (Some ` Finite ` of_int ` {1..})
    \<longrightarrow> productList localeCompare query s = (Inl VALIDATION_ERROR, s)) \<and>
   productList localeCompare (query\<lparr>q_page := None\<rparr>) s =
     productList localeCompare (query\<lparr>q_page := Some (Finite 1)\<rparr>) s \<and>
   productList localeCompare (query\<lparr>q_pageSize := None\<rparr>) s =
     productList localeCompare (query\<lparr>q_pageSize := Some (Finite 12)\<rparr>) s \<and>
   (q_page query = None \<and> q_pageSize query = None \<and>
    productList localeCompare query s = (Inr r, s')
    \<longrightarrow> pg_page (r_pagination r) = 1 \<and> pg_pageSize (r_pagination r) = 12)"
proof (intro conjI impI)
  assume bad: "q_category query \<notin> insert Absent (Present ` set PRODUCT_CATEGORIES) \<or>
    q_sort query \<notin> insert Absent (Present ` set SORT_VALUES) \<or>
    q_pageSize query \<notin> insert None (Some ` Finite ` {12, 24, 36, 48}) \<or>
    q_page query \<notin> insert None (Some ` Finite ` of_int ` {1..})"
  have "listQuerySchema query = Inl VALIDATION_ERROR"
  proof (rule ccontr)
    assume "listQuerySchema query \<noteq> Inl VALIDATION_ERROR"
    then obtain f where f: "listQuerySchema query = Inr f"
      by (cases "listQuerySchema query")
        (auto simp: listQuerySchema_def split: option.splits)
    have "q_category query \<in> insert Absent (Present ` set PRODUCT_CATEGORIES)"
      using listQuerySchema_Inr(1) [OF f]
      by (cases "q_category query") (auto split: if_splits)
    moreover have "q_sort query \<in> insert Absent (Present ` set SORT_VALUES)"
      using listQuerySchema_Inr(2) [OF f]
      by (cases "q_sort query") (auto split: if_splits)
    moreover have "q_pageSize query \<in> insert None (Some ` Finite ` {12, 24, 36, 48})"
      using listQuerySchema_Inr(4) [OF f]
      by (cases "q_pageSize query" rule: parse_pageSize.cases) (auto split: if_splits)
    moreover have "q_page query \<in> insert None (Some ` Finite ` of_int ` {1..})"
    proof (cases "q_page query")
      case None
      then show ?thesis by simp
    next
      case (Some n)
      with listQuerySchema_Inr(3) [OF f] have p: "positive_int n = Some (f_page f)" by simp
      then obtain x where n: "n = Finite x" by (cases n) simp_all
      from p n have x: "of_int \<lfloor>x\<rfloor> = x" "0 < x" by (auto split: if_splits)
      then have "1 \<le> \<lfloor>x\<rfloor>" by (rule integral_pos_floor)
      with x(1) have "x \<in> of_int ` {1..}" by (metis atLeast_iff imageI)
      with Some n show ?thesis by simp
    qed
    ultimately show False using bad by blast
  qed
  then show "productList localeCompare query s = (Inl VALIDATION_ERROR, s)"
    by (simp add: productList_def)
next
  have "listQuerySchema (query\<lparr>q_page := None\<rparr>) =
          listQuerySchema (query\<lparr>q_page := Some (Finite 1)\<rparr>)"
    by (simp add: listQuerySchema_def split: option.splits)
  then show "productList localeCompare (query\<lparr>q_page := None\<rparr>) s =
     productList localeCompare (query\<lparr>q_page := Some (Finite 1)\<rparr>) s"
    by (simp add: productList_def)
next
  have "listQuerySchema (query\<lparr>q_pageSize := None\<rparr>) =
          listQuerySchema (query\<lparr>q_pageSize := Some (Finite 12)\<rparr>)"
    by (simp add: listQuerySchema_def split: option.splits)
  then show "productList localeCompare (query\<lparr>q_pageSize := None\<rparr>) s =
     productList localeCompare (query\<lparr>q_pageSize := Some (Finite 12)\<rparr>) s"
    by (simp add: productList_def)
next
  assume a: "q_page query = None \<and> q_pageSize query = None \<and>
    productList localeCompare query s = (Inr r, s')"
  then obtain f where f: "listQuerySchema query = Inr f"
    and r: "r = paginate f (sortProducts localeCompare f (filterProducts f (map snd (records s))))"
    by (auto elim: productList_cases)
  from a listQuerySchema_Inr(3,4) [OF f] have "f_page f = 1" "f_pageSize f = 12" by simp_all
  then show "pg_page (r_pagination r) = 1" "pg_pageSize (r_pagination r) = 12"
    by (simp_all add: r r_pagination_paginate or_number_def)
qed

text \<open>
  The category \<open>invalid-value\<close> and the page size 20 are refused; the query with no
  parameter at all is answered with page 1 of size 12.
\<close>

theorem productList_rejects_invalid_query_witness:
  "q_category (empty_query\<lparr>q_category := Present ''invalid-value''\<rparr>)
     \<notin> insert Absent (Present ` set PRODUCT_CATEGORIES)
   \<and> productList sampleCompare (empty_query\<lparr>q_category := Present ''invalid-value''\<rparr>)
       three_products = (Inl VALIDATION_ERROR, three_products)
   \<and> q_pageSize (empty_query\<lparr>q_pageSize := Some (Finite 20)\<rparr>)
     \<notin> insert None (Some ` Finite ` {12, 24, 36, 48})
   \<and> productList sampleCompare (empty_query\<lparr>q_pageSize := Some (Finite 20)\<rparr>)
       three_products = (Inl VALIDATION_ERROR, three_products)
   \<and> q_page empty_query = None \<and> q_pageSize empty_query = None
   \<and> productList sampleCompare empty_query three_products =
       (Inr three_products_page, three_products)
   \<and> pg_page (r_pagination three_products_page) = 1
   \<and> pg_pageSize (r_pagination three_products_page) = 12"
  using productList_rejects_invalid_query [of "empty_query\<lparr>q_category := Present ''invalid-value''\<rparr>"
      sampleCompare three_products undefined undefined]
    productList_rejects_invalid_query [of "empty_query\<lparr>q_pageSize := Some (Finite 20)\<rparr>"
      sampleCompare three_products undefined undefined]
    productList_rejects_invalid_query [of empty_query sampleCompare three_products
      three_products_page three_products]
    eval_list_three
  by (simp add: empty_query_def category_defs three_products_page_def)

text \<open>
  C10. \<open>productList\<close> returns the store it was given, records and counter, whether it
  answers or fails: it reads the store through \<open>getAll\<close> only, which hands out a fresh
  array.
\<close>

theorem productList_readonly: "snd (productList localeCompare query s) = s"
  by (cases "listQuerySchema query") (simp_all add: productList_def store_getAll_def)

section \<open>Create and update\<close>

text \<open>
  C4 as stated fails: the update keeps \<open>isNew\<close> while the whole days since creation are at
  most 30, so 30 days and one millisecond after creation \<open>isNew\<close> is still true although
  \<open>now - dateCreated\<close> exceeds 30 days.
\<close>

theorem isNew_30_days_counterexample:
  "productUpdate sampleIsUrl 2592000001 (Finite 1) sample_body one_product =
     (Inr (Some (updated_product 2592000001 True)),
      \<lparr>records = [(1, updated_product 2592000001 True)], currentId = 1\<rparr>)
   \<and> map_of (records one_product) 1 = Some (sample_product 1 False (Some 100) 0)
   \<and> isNew (updated_product 2592000001 True)
   \<and> \<not> (2592000001 - dateCreated (sample_product 1 False (Some 100) 0) \<le> 30 * 86400000)"
  using eval_update [of 2592000001]
  by (simp add: one_product_def updated_product_def sample_product_def)

text \<open>
  C4, amended. A created product has \<open>isNew = true\<close>. A successful update stores and
  returns a record whose \<open>isNew\<close> is \<open>floor((now - dateCreated) / 1 day) <= 30\<close> for the
  \<open>dateCreated\<close> of the record found in the store, that is \<open>now - dateCreated < 31 days\<close>;
  so \<open>isNew\<close> is false 31 days or more after creation, and nothing in the payload enters
  its value.
\<close>

theorem isNew_computed:
  "(productCreate isUrl now b s = (Inr p, s1) \<longrightarrow> isNew p) \<and>
   (productUpdate isUrl now params b s = (Inr u, s2) \<longrightarrow>
      (\<exists>i existing updated.
         paramsSchema params = Inr i \<and> map_of (records s) i = Some existing \<and>
         u = Some updated \<and> map_of (records s2) i = Some updated \<and>
         isNew updated = ((now - dateCreated existing) div 86400000 \<le> 30) \<and>
         isNew updated = (now - dateCreated existing < 31 * 86400000)))"
proof (intro conjI impI)
  assume "productCreate isUrl now b s = (Inr p, s1)"
  then show "isNew p" by (rule productCreate_Inr(2))
next
  assume "productUpdate isUrl now params b s = (Inr u, s2)"
  then obtain i updateData existing where
    i: "paramsSchema params = Inr i" and
    e: "map_of (records s) i = Some existing" and
    u: "u = Some (spread existing (updateFields now updateData existing))" and
    s2: "s2 = s\<lparr>records :=
           map_set i (spread existing (updateFields now updateData existing)) (records s)\<rparr>"
    by (rule productUpdate_Inr)
  define updated where "updated = spread existing (updateFields now updateData existing)"
  have new: "isNew updated = ((now - dateCreated existing) div 86400000 \<le> 30)"
    by (simp add: updated_def spread_updateFields(1) daysSinceCreation_def)
  moreover have "isNew updated = (now - dateCreated existing < 31 * 86400000)"
    using days_le_30 [of "now - dateCreated existing"] by (simp add: new)
  moreover have "map_of (records s2) i = Some updated"
    by (simp add: s2 updated_def map_of_map_set)
  ultimately show "\<exists>i existing updated.
         paramsSchema params = Inr i \<and> map_of (records s) i = Some existing \<and>
         u = Some updated \<and> map_of (records s2) i = Some updated \<and>
         isNew updated = ((now - dateCreated existing) div 86400000 \<le> 30) \<and>
         isNew updated = (now - dateCreated existing < 31 * 86400000)"
    using i e u unfolding updated_def by blast
qed

theorem isNew_computed_witness:
  "productCreate sampleIsUrl 5 sample_body empty_store =
     (Inr ((updated_product 5 True)\<lparr>dateCreated := 5\<rparr>),
      \<lparr>records = [(1, (updated_product 5 True)\<lparr>dateCreated := 5\<rparr>)], currentId = 1\<rparr>)
   \<and> isNew ((updated_product 5 True)\<lparr>dateCreated := 5\<rparr>)
   \<and> productUpdate sampleIsUrl 2678400000 (Finite 1) sample_body one_product =
     (Inr (Some (updated_product 2678400000 False)),
      \<lparr>records = [(1, updated_product 2678400000 False)], currentId = 1\<rparr>)
   \<and> (\<exists>existing updated.
         map_of (records one_product) 1 = Some existing \<and>
         Some (updated_product 2678400000 False) = Some updated \<and>
         isNew updated = (2678400000 - dateCreated existing < 31 * 86400000))"
proof -
  have c: "productCreate sampleIsUrl 5 sample_body empty_store =
     (Inr ((updated_product 5 True)\<lparr>dateCreated := 5\<rparr>),
      \<lparr>records = [(1, (updated_product 5 True)\<lparr>dateCreated := 5\<rparr>)], currentId = 1\<rparr>)"
    by (rule eval_create_empty)
  have u: "productUpdate sampleIsUrl 2678400000 (Finite 1) sample_body one_product =
     (Inr (Some (updated_product 2678400000 False)),
      \<lparr>records = [(1, updated_product 2678400000 False)], currentId = 1\<rparr>)"
    using eval_update [of 2678400000] by simp
  have i: "paramsSchema (Finite 1) = Inr 1" by (simp add: paramsSchema_def)
  from isNew_computed [of sampleIsUrl 5 sample_body empty_store] c
  have "isNew ((updated_product 5 True)\<lparr>dateCreated := 5\<rparr>)" by blast
  moreover from isNew_computed [of sampleIsUrl 2678400000 sample_body one_product _ _ "Finite 1"] u
  have "\<exists>existing updated.
         map_of (records one_product) 1 = Some existing \<and>
         Some (updated_product 2678400000 False) = Some updated \<and>
         isNew updated = (2678400000 - dateCreated existing < 31 * 86400000)"
    unfolding i by blast
  ultimately show ?thesis using c u by blast
qed

text \<open>
  C5. The claim is that an update whose payload omits \<open>images\<close> keeps the images of the
  record. \<open>updateSchema\<close> gives a missing \<open>images\<close> the default \<open>[]\<close>, and the empty array is
  truthy, so \<open>updateData.images || existing.images\<close> never takes the images of the record:
  by \<open>productUpdate_omitted_images\<close> every such update stores \<open>images = []\<close>, and the update
  below, with no \<open>images\<close> in its body, leaves the record without the image it had.
\<close>

theorem productUpdate_omitted_images_cleared:
  "b_images sample_body = Absent
   \<and> map_of (records one_product) 1 = Some (sample_product 1 False (Some 100) 0)
   \<and> images (sample_product 1 False (Some 100) 0) = [''https://example.com/side.jpg'']
   \<and> productUpdate sampleIsUrl 1000 (Finite 1) sample_body one_product =
     (Inr (Some (updated_product 1000 True)),
      \<lparr>records = [(1, updated_product 1000 True)], currentId = 1\<rparr>)
   \<and> images (updated_product 1000 True) = []"
  using eval_update [of 1000]
  by (simp add: one_product_def updated_product_def sample_product_def sample_body_def)

text \<open>
  C9. When \<open>productCreate\<close> returns a product, \<open>productGet\<close> with the identifier of that
  product, on the store \<open>productCreate\<close> left, returns the same product, all fields.
\<close>

theorem create_get_roundtrip:
  assumes "productCreate isUrl now b s = (Inr p, s')"
  shows "productGet (Finite (of_nat (pid p))) s' = (Inr p, s')"
proof -
  have "0 < pid p" using productCreate_Inr(1) [OF assms] by simp
  then have "paramsSchema (Finite (of_nat (pid p))) = Inr (pid p)"
    by (rule paramsSchema_of_nat)
  moreover have "map_of (records s') (pid p) = Some p"
    by (simp add: productCreate_Inr(4) [OF assms] map_of_map_set)
  ultimately show ?thesis by (simp add: productGet_def store_getById_def)
qed

theorem create_get_roundtrip_witness:
  "productCreate sampleIsUrl 5 sample_body empty_store =
     (Inr ((updated_product 5 True)\<lparr>dateCreated := 5\<rparr>),
      \<lparr>records = [(1, (updated_product 5 True)\<lparr>dateCreated := 5\<rparr>)], currentId = 1\<rparr>)
   \<and> productGet (Finite (of_nat (pid ((updated_product 5 True)\<lparr>dateCreated := 5\<rparr>))))
       \<lparr>records = [(1, (updated_product 5 True)\<lparr>dateCreated := 5\<rparr>)], currentId = 1\<rparr> =
     (Inr ((updated_product 5 True)\<lparr>dateCreated := 5\<rparr>),
      \<lparr>records = [(1, (updated_product 5 True)\<lparr>dateCreated := 5\<rparr>)], currentId = 1\<rparr>)"
  using create_get_roundtrip [OF eval_create_empty] eval_create_empty by simp

section \<open>Identifiers and failures\<close>

text \<open>
  C6. In every sequence of store operations without \<open>clear\<close>, the identifiers
  \<open>getNextId\<close> returns are strictly increasing; and when a product is created, deleted,
  and another is created, the second identifier is greater than the first.
\<close>

theorem identifiers_never_reused:
  "(Clear \<notin> set ops \<longrightarrow> sorted_wrt (<) (allocated ops s)) \<and>
   (productCreate isUrl now1 b1 s = (Inr p1, s1) \<and>
    productDelete (Finite (of_nat (pid p1))) s1 = (Inr msg, s2) \<and>
    productCreate isUrl now2 b2 s2 = (Inr p2, s3)
    \<longrightarrow> pid p1 < pid p2)"
proof (intro conjI impI)
  assume "Clear \<notin> set ops"
  then show "sorted_wrt (<) (allocated ops s)" by (rule allocated_increasing)
next
  assume a: "productCreate isUrl now1 b1 s = (Inr p1, s1) \<and>
    productDelete (Finite (of_nat (pid p1))) s1 = (Inr msg, s2) \<and>
    productCreate isUrl now2 b2 s2 = (Inr p2, s3)"
  then have "pid p1 = currentId s + 1" and "currentId s1 = currentId s + 1"
    using productCreate_Inr(1,4) [of isUrl now1 b1 s p1 s1] by simp_all
  moreover from a have "currentId s2 = currentId s1" by (auto dest: productDelete_currentId)
  moreover from a have "pid p2 = currentId s2 + 1"
    using productCreate_Inr(1) [of isUrl now2 b2 s2 p2 s3] by simp
  ultimately show "pid p1 < pid p2" by simp
qed

theorem identifiers_never_reused_witness:
  "Clear \<notin> set [GetNextId, Add (sample_product 1 False None 0), Delete 1, GetNextId]
   \<and> allocated [GetNextId, Add (sample_product 1 False None 0), Delete 1, GetNextId] empty_store
       = [1, 2]
   \<and> sorted_wrt (<) [1, 2 :: nat]
   \<and> productCreate sampleIsUrl 5 sample_body empty_store =
       (Inr ((updated_product 5 True)\<lparr>dateCreated := 5\<rparr>),
        \<lparr>records = [(1, (updated_product 5 True)\<lparr>dateCreated := 5\<rparr>)], currentId = 1\<rparr>)
   \<and> productDelete (Finite (of_nat (pid ((updated_product 5 True)\<lparr>dateCreated := 5\<rparr>))))
       \<lparr>records = [(1, (updated_product 5 True)\<lparr>dateCreated := 5\<rparr>)], currentId = 1\<rparr> =
       (Inr ''Product deleted successfully'', \<lparr>records = [], currentId = 1\<rparr>)
   \<and> productCreate sampleIsUrl 9 sample_body \<lparr>records = [], currentId = 1\<rparr> =
       (Inr ((updated_product 9 True)\<lparr>pid := 2, dateCreated := 9\<rparr>),
        \<lparr>records = [(2, (updated_product 9 True)\<lparr>pid := 2, dateCreated := 9\<rparr>)],
         currentId = 2\<rparr>)
   \<and> pid ((updated_product 5 True)\<lparr>dateCreated := 5\<rparr>)
       < pid ((updated_product 9 True)\<lparr>pid := 2, dateCreated := 9\<rparr>)"
  using identifiers_never_reused [of
      "[GetNextId, Add (sample_product 1 False None 0), Delete 1, GetNextId]" empty_store
      sampleIsUrl 5 sample_body "(updated_product 5 True)\<lparr>dateCreated := 5\<rparr>"
      "\<lparr>records = [(1, (updated_product 5 True)\<lparr>dateCreated := 5\<rparr>)], currentId = 1\<rparr>"
      "''Product deleted successfully''" "\<lparr>records = [], currentId = 1\<rparr>"
      9 sample_body "(updated_product 9 True)\<lparr>pid := 2, dateCreated := 9\<rparr>"
      "\<lparr>records = [(2, (updated_product 9 True)\<lparr>pid := 2, dateCreated := 9\<rparr>)],
         currentId = 2\<rparr>"]
    eval_allocated eval_create_empty eval_delete_created eval_create_again
  by simp

text \<open>
  C7 as stated fails: \<open>productCreate\<close> takes the next identifier before \<open>add\<close> checks the
  capacity, so a create refused by a full store has advanced the counter.
\<close>

theorem failed_create_counterexample:
  "productCreate sampleIsUrl 5 sample_body full_store =
     (Inl LIMIT_REACHED, full_store\<lparr>currentId := currentId full_store + 1\<rparr>)
   \<and> currentId (full_store\<lparr>currentId := currentId full_store + 1\<rparr>) = 10001
   \<and> currentId full_store = 10000
   \<and> full_store\<lparr>currentId := currentId full_store + 1\<rparr> \<noteq> full_store"
proof -
  have c: "currentId full_store = 10000"
    by (simp only: full_store_def product_store.simps)
  have "currentId (full_store\<lparr>currentId := currentId full_store + 1\<rparr>) = 10001"
    by (simp add: c)
  moreover have "full_store\<lparr>currentId := currentId full_store + 1\<rparr> \<noteq> full_store"
  proof
    assume "full_store\<lparr>currentId := currentId full_store + 1\<rparr> = full_store"
    then have "currentId (full_store\<lparr>currentId := currentId full_store + 1\<rparr>) =
        currentId full_store" by (simp only:)
    then show False by simp
  qed
  ultimately show ?thesis using eval_create_full c by simp
qed

text \<open>
  C7, amended. An operation that fails with \<open>VALIDATION_ERROR\<close> or \<open>NOT_FOUND\<close> leaves
  the store as it was, and so does \<open>add\<close> when it refuses a record; a create refused
  because the store holds \<open>MAX_RECORDS\<close> records or more leaves the records as they were
  and the counter one higher.
\<close>

theorem failed_operations_leave_store:
  "(productList localeCompare query s = (Inl e, s') \<longrightarrow> s' = s) \<and>
   (productGet params s = (Inl e, s') \<longrightarrow> s' = s) \<and>
   (productUpdate isUrl now params b s = (Inl e, s') \<longrightarrow> s' = s) \<and>
   (productDelete params s = (Inl e, s') \<longrightarrow> s' = s) \<and>
   (fst (store_add record s) = Inl e \<longrightarrow> snd (store_add record s) = s) \<and>
   (productCreate isUrl now b s = (Inl VALIDATION_ERROR, s') \<longrightarrow> s' = s) \<and>
   (productCreate isUrl now b s = (Inl LIMIT_REACHED, s') \<longrightarrow>
      MAX_RECORDS \<le> length (records s) \<and> records s' = records s \<and>
      currentId s' = currentId s + 1)"
proof (intro conjI impI)
  assume "productList localeCompare query s = (Inl e, s')"
  then show "s' = s" by (rule productList_Inl)
next
  assume "productGet params s = (Inl e, s')"
  then show "s' = s" by (rule productGet_Inl)
next
  assume "productUpdate isUrl now params b s = (Inl e, s')"
  then show "s' = s" by (rule productUpdate_Inl)
next
  assume "productDelete params s = (Inl e, s')"
  then show "s' = s" by (rule productDelete_Inl)
next
  assume "fst (store_add record s) = Inl e"
  then show "snd (store_add record s) = s" by (simp add: store_add_def split: if_splits)
next
  assume "productCreate isUrl now b s = (Inl VALIDATION_ERROR, s')"
  from productCreate_Inl [OF this] show "s' = s" by simp
next
  assume "productCreate isUrl now b s = (Inl LIMIT_REACHED, s')"
  from productCreate_Inl [OF this]
  have "s' = s\<lparr>currentId := currentId s + 1\<rparr>" and "MAX_RECORDS \<le> length (records s)"
    by simp_all
  then show "MAX_RECORDS \<le> length (records s)" "records s' = records s"
    "currentId s' = currentId s + 1" by simp_all
qed

theorem failed_operations_leave_store_witness:
  "productList sampleCompare (empty_query\<lparr>q_category := Present ''invalid-value''\<rparr>)
     three_products = (Inl VALIDATION_ERROR, three_products)
   \<and> productCreate sampleIsUrl 5 sample_body full_store =
     (Inl LIMIT_REACHED, full_store\<lparr>currentId := currentId full_store + 1\<rparr>)
   \<and> MAX_RECORDS \<le> length (records full_store)
   \<and> records (full_store\<lparr>currentId := currentId full_store + 1\<rparr>) = records full_store
   \<and> currentId (full_store\<lparr>currentId := currentId full_store + 1\<rparr>) =
       currentId full_store + 1"
  using failed_operations_leave_store [where localeCompare = sampleCompare
      and query = "empty_query\<lparr>q_category := Present ''invalid-value''\<rparr>"
      and s = three_products and e = VALIDATION_ERROR and s' = three_products]
    failed_operations_leave_store [where isUrl = sampleIsUrl and now = 5 and b = sample_body
      and s = full_store and s' = "full_store\<lparr>currentId := currentId full_store + 1\<rparr>"]
    eval_list_invalid eval_create_full
  by simp

end
